theory Spec2Isabelle
  imports Main "HOL-Library.Monad_Syntax"
begin

section \<open>JavaScript values\<close>

text \<open>
  The tree is generic in its payload type, and the facade tests payloads and identifiers
  for truthiness (\<^verbatim>\<open>data?.id\<close>, \<^verbatim>\<open>this._root?.data || null\<close>, \<^verbatim>\<open>if (data)\<close>),
  so payloads are JavaScript values. Numbers are modelled as integers plus \<open>NaN\<close>. An
  object is the list of its own properties with its prototype (\<open>VNull\<close> where the chain
  ends). An entry of the list stands for a data property, or for an accessor property
  with the value its getter returns; a getter is taken to return the same value at
  every read and to change nothing.
\<close>

datatype val =
    VNull
  | VUndef
  | VBool bool
  | VNum int
  | VNaN
  | VStr string
  | VObj "(string \<times> val) list" val

text \<open>ToBoolean: the falsy values are \<open>null\<close>, \<open>undefined\<close>, \<open>false\<close>, \<open>0\<close>,
  \<open>NaN\<close> and the empty string.\<close>

fun truthy :: "val \<Rightarrow> bool" where
  "truthy VNull = False"
| "truthy VUndef = False"
| "truthy (VBool b) = b"
| "truthy (VNum n) = (n \<noteq> 0)"
| "truthy VNaN = False"
| "truthy (VStr s) = (s \<noteq> [])"
| "truthy (VObj fs proto) = True"

text \<open>\<^verbatim>\<open>a || b\<close>\<close>

definition js_or :: "val \<Rightarrow> val \<Rightarrow> val" where
  "js_or a b = (if truthy a then a else b)"

text \<open>\<^verbatim>\<open>v?.name\<close>: \<open>undefined\<close> on \<open>null\<close> and \<open>undefined\<close>; on an object the own
  property, data or accessor, and without one the property the prototype chain gives;
  \<open>undefined\<close> on a primitive (it is read for \<open>id\<close> only, which no built-in prototype
  of a primitive has).\<close>

fun opt_prop :: "val \<Rightarrow> string \<Rightarrow> val" where
  "opt_prop VNull name = VUndef"
| "opt_prop VUndef name = VUndef"
| "opt_prop (VBool b) name = VUndef"
| "opt_prop (VNum n) name = VUndef"
| "opt_prop VNaN name = VUndef"
| "opt_prop (VStr s) name = VUndef"
| "opt_prop (VObj fs proto) name =
     (case map_of fs name of None \<Rightarrow> opt_prop proto name | Some v \<Rightarrow> v)"


section \<open>Nodes, trees and the store\<close>

type_synonym addr = nat
type_synonym tref = nat

text \<open>An \<^verbatim>\<open>AVLDataNode\<close>, with the fields the facade reads and writes: \<^verbatim>\<open>data\<close>,
  \<^verbatim>\<open>id\<close>, \<^verbatim>\<open>prev\<close> (the parent link), \<^verbatim>\<open>left\<close>, \<^verbatim>\<open>right\<close>, \<^verbatim>\<open>balance\<close>.\<close>

record node =
  data :: val
  node_id :: val
  prev :: "addr option"
  left :: "addr option"
  right :: "addr option"
  balance :: int

text \<open>A comparison callback gets the candidate node and the target value and answers
  \<open>-1\<close> (candidate below the target), \<open>0\<close> (hit) or \<open>1\<close>; a node locator gets the
  candidate node only.\<close>

type_synonym value_callback = "node \<Rightarrow> val \<Rightarrow> int"
type_synonym node_callback = "node \<Rightarrow> int"

text \<open>A tree object: its \<^verbatim>\<open>_root\<close> field and its \<^verbatim>\<open>search\<close> callback.\<close>

record tree_obj =
  root_ptr :: "addr option"
  search :: value_callback

text \<open>Objects are shared and mutated in place, so they live in a store: node objects by
  address, tree objects by reference, each with the next free slot.\<close>

record state =
  nodes :: "addr \<Rightarrow> node"
  trees :: "tref \<Rightarrow> tree_obj"
  next_node :: addr
  next_tree :: tref

definition upd_node :: "addr \<Rightarrow> (node \<Rightarrow> node) \<Rightarrow> state \<Rightarrow> state" where
  "upd_node a f st = st\<lparr>nodes := (nodes st)(a := f (nodes st a))\<rparr>"

definition upd_tree :: "tref \<Rightarrow> (tree_obj \<Rightarrow> tree_obj) \<Rightarrow> state \<Rightarrow> state" where
  "upd_tree t f st = st\<lparr>trees := (trees st)(t := f (trees st t))\<rparr>"


section \<open>What the facade imports\<close>

text \<open>
  The class \<^verbatim>\<open>AVLTree\<close> calls code that it imports: the node class, the base class
  \<^verbatim>\<open>BST\<close> (constructor, \<^verbatim>\<open>binarySearchNode\<close>, \<^verbatim>\<open>BFS\<close>), the structural operations of
  \<^verbatim>\<open>../BST/Models\<close> and the balance propagation of \<^verbatim>\<open>./Models\<close>. The facade is
  modelled over any such imports. A call that does not return normally (it throws, or
  it runs forever) is \<open>None\<close>. The two searches only read the store.
\<close>

record imported =
  ext_AVLDataNode :: "val \<Rightarrow> state \<Rightarrow> addr \<times> state"
  ext_BST :: "val \<Rightarrow> state \<Rightarrow> tref \<times> state"
  ext_InsertNodeInBST :: "tref \<Rightarrow> addr \<Rightarrow> val \<Rightarrow> state \<Rightarrow> (addr option \<times> state) option"
  ext_DeleteNodeInBST :: "addr \<Rightarrow> tref \<Rightarrow> state \<Rightarrow> (addr option \<times> state) option"
  ext_BinarySearch :: "addr option \<Rightarrow> val \<Rightarrow> value_callback \<Rightarrow> state \<Rightarrow> addr option option"
  ext_binarySearchNode :: "tref \<Rightarrow> node_callback \<Rightarrow> state \<Rightarrow> addr option option"
  ext_BFS :: "tref \<Rightarrow> (addr \<Rightarrow> state \<Rightarrow> state option) \<Rightarrow> state \<Rightarrow> state option"
  ext_SetBalanceFactorsBackward :: "addr \<Rightarrow> tref \<Rightarrow> state \<Rightarrow> state option"
  ext_SetBalanceFactorsForward :: "addr option \<Rightarrow> tref \<Rightarrow> state \<Rightarrow> state option"
  ext_SetBalanceFactorsAfterDeletion :: "addr option \<Rightarrow> tref \<Rightarrow> state \<Rightarrow> state option"


section \<open>The class AVLTree\<close>

text \<open>\<^verbatim>\<open>constructor(data) { super(data); }\<close>\<close>

definition AVLTree :: "imported \<Rightarrow> val \<Rightarrow> state \<Rightarrow> tref \<times> state" where
  "AVLTree env d st = ext_BST env d st"

text \<open>\<^verbatim>\<open>get root() { return this._root?.data || null; }\<close>\<close>

definition AVLTree_root :: "tref \<Rightarrow> state \<Rightarrow> val" where
  "AVLTree_root this st =
     js_or (case root_ptr (trees st this) of
              None \<Rightarrow> VUndef
            | Some r \<Rightarrow> data (nodes st r)) VNull"

text \<open>\<^verbatim>\<open>set root(data) { if (data) this._root = new AVLDataNode(data); }\<close>\<close>

definition AVLTree_set_root :: "imported \<Rightarrow> tref \<Rightarrow> val \<Rightarrow> state \<Rightarrow> state" where
  "AVLTree_set_root env this d st =
     (if truthy d
      then (let (n, st1) = ext_AVLDataNode env d st
            in upd_tree this (\<lambda>t. t\<lparr>root_ptr := Some n\<rparr>) st1)
      else st)"

text \<open>
  \<^verbatim>\<open>insert(data, id)\<close>: the payload's truthy \<^verbatim>\<open>id\<close> replaces the argument, the payload is
  wrapped in a new node, the node is handed to \<^verbatim>\<open>InsertNodeInBST\<close>, and the balance
  factors are set backward from the node that call returns, if it returns one. The
  result is \<^verbatim>\<open>this\<close>. An absent \<^verbatim>\<open>id\<close> argument is \<open>VUndef\<close>.
\<close>

definition AVLTree_insert ::
  "imported \<Rightarrow> tref \<Rightarrow> val \<Rightarrow> val \<Rightarrow> state \<Rightarrow> (tref \<times> state) option" where
  "AVLTree_insert env this d i st =
     (let i1 = (if truthy (opt_prop d ''id'') then opt_prop d ''id'' else i);
          (n, st1) = ext_AVLDataNode env d st
      in do {
        (node, st2) \<leftarrow> ext_InsertNodeInBST env this n i1 st1;
        case node of
          None \<Rightarrow> Some (this, st2)
        | Some nd \<Rightarrow> do {
            st3 \<leftarrow> ext_SetBalanceFactorsBackward env nd this st2;
            Some (this, st3)
          }
      })"

text \<open>
  \<^verbatim>\<open>delete(value, callback = this.search)\<close>: a miss returns \<open>null\<close>; on a hit the node is
  handed to \<^verbatim>\<open>DeleteNodeInBST\<close>, the balance factors are set forward from the node that
  call returns, and then \<^verbatim>\<open>node.data\<close> is read and returned.
\<close>

definition AVLTree_delete ::
  "imported \<Rightarrow> tref \<Rightarrow> val \<Rightarrow> value_callback option \<Rightarrow> state \<Rightarrow> (val \<times> state) option" where
  "AVLTree_delete env this v callback st =
     (let cb = (case callback of None \<Rightarrow> search (trees st this) | Some c \<Rightarrow> c)
      in do {
        node \<leftarrow> ext_BinarySearch env (root_ptr (trees st this)) v cb st;
        case node of
          None \<Rightarrow> Some (VNull, st)
        | Some nd \<Rightarrow> do {
            (predecessor, st1) \<leftarrow> ext_DeleteNodeInBST env nd this st;
            st2 \<leftarrow> ext_SetBalanceFactorsForward env predecessor this st1;
            Some (data (nodes st2 nd), st2)
          }
      })"

text \<open>
  \<^verbatim>\<open>deleteNode(callback)\<close>: as \<^verbatim>\<open>delete\<close>, with \<^verbatim>\<open>binarySearchNode\<close> as the search and
  \<^verbatim>\<open>SetBalanceFactorsAfterDeletion\<close> as the propagation; then the located node's
  \<^verbatim>\<open>prev\<close>, \<^verbatim>\<open>left\<close>, \<^verbatim>\<open>right\<close> are set to \<open>null\<close> and its \<^verbatim>\<open>balance\<close> to 0, and the node
  is returned.
\<close>

definition AVLTree_deleteNode ::
  "imported \<Rightarrow> tref \<Rightarrow> node_callback \<Rightarrow> state \<Rightarrow> (addr option \<times> state) option" where
  "AVLTree_deleteNode env this callback st =
     do {
       node \<leftarrow> ext_binarySearchNode env this callback st;
       case node of
         None \<Rightarrow> Some (None, st)
       | Some nd \<Rightarrow> do {
           (predecessor, st1) \<leftarrow> ext_DeleteNodeInBST env nd this st;
           st2 \<leftarrow> ext_SetBalanceFactorsAfterDeletion env predecessor this st1;
           Some (Some nd,
                 upd_node nd (\<lambda>n. n\<lparr>prev := None, left := None, right := None, balance := 0\<rparr>) st2)
         }
     }"

text \<open>
  \<^verbatim>\<open>copy()\<close>: a new tree, then for each node of \<^verbatim>\<open>this\<close> in breadth-first order a new
  node with the same payload and id is handed to \<^verbatim>\<open>InsertNodeInBST\<close> on the new tree.
  The balance factors are then set backward from the inserted node with \<^verbatim>\<open>this\<close> as
  the tree argument, as the source has it.
\<close>

definition copy_visit :: "imported \<Rightarrow> tref \<Rightarrow> tref \<Rightarrow> addr \<Rightarrow> state \<Rightarrow> state option" where
  "copy_visit env this tree nd st =
     (let (copiedNode, st1) = ext_AVLDataNode env (data (nodes st nd)) st;
          st2 = upd_node copiedNode (\<lambda>n. n\<lparr>node_id := node_id (nodes st1 nd)\<rparr>) st1
      in do {
        (insertedNode, st3) \<leftarrow> ext_InsertNodeInBST env tree copiedNode VUndef st2;
        case insertedNode of
          None \<Rightarrow> Some st3
        | Some ins \<Rightarrow> ext_SetBalanceFactorsBackward env ins this st3
      })"

definition AVLTree_copy :: "imported \<Rightarrow> tref \<Rightarrow> state \<Rightarrow> (tref \<times> state) option" where
  "AVLTree_copy env this st =
     (let (tree, st0) = AVLTree env VUndef st
      in do {
        st1 \<leftarrow> ext_BFS env this (copy_visit env this tree) st0;
        Some (tree, st1)
      })"


section \<open>The imported code, modelled from the specification\<close>

text \<open>
  None of the imported code is among the sources. The definitions of this section
  follow the specification's description of it (sections 3, 4.2, 4.3 and 6), so that the
  facade can be run on concrete trees. Every loop carries a step bound taken from the
  number of allocated nodes, which no walk along a cycle-free chain of links exceeds; a
  walk that uses it up does not return (\<open>None\<close>).
\<close>

subsection \<open>Nodes and trees\<close>

text \<open>Modelled from the spec: the node class \<^verbatim>\<open>AVLDataNode\<close>. A node is created wrapping
  the payload, with no links and its balance factor initialised to 0 (section 3, Lifecycle).\<close>

definition AVLDataNode :: "val \<Rightarrow> state \<Rightarrow> addr \<times> state" where
  "AVLDataNode d st =
     (next_node st,
      st\<lparr>nodes := (nodes st)(next_node st :=
             \<lparr>data = d, node_id = VUndef, prev = None, left = None, right = None, balance = 0\<rparr>),
         next_node := Suc (next_node st)\<rparr>)"

text \<open>Modelled from the spec: the default comparator of the base class. The spec fixes its
  contract only (section 6: three-way, \<open>-1\<close>/\<open>0\<close>/\<open>1\<close> for candidate against target,
  consistent with one total order). The model fixes one such order of the keys: values
  of different kinds by their kind, booleans, numbers and strings by their usual order,
  and any two objects as one key.\<close>

fun kind :: "val \<Rightarrow> nat" where
  "kind VUndef = 0"
| "kind VNull = 1"
| "kind (VBool b) = 2"
| "kind (VNum n) = 3"
| "kind VNaN = 4"
| "kind (VStr s) = 5"
| "kind (VObj fs proto) = 6"

fun compare_codes :: "nat list \<Rightarrow> nat list \<Rightarrow> int" where
  "compare_codes [] [] = 0"
| "compare_codes [] (y # ys) = - 1"
| "compare_codes (x # xs) [] = 1"
| "compare_codes (x # xs) (y # ys) =
     (if x < y then - 1 else if y < x then 1 else compare_codes xs ys)"

fun compare_val :: "val \<Rightarrow> val \<Rightarrow> int" where
  "compare_val (VBool a) (VBool b) = (if a = b then 0 else if b then - 1 else 1)"
| "compare_val (VNum a) (VNum b) = (if a < b then - 1 else if a = b then 0 else 1)"
| "compare_val (VStr a) (VStr b) = compare_codes (map of_char a) (map of_char b)"
| "compare_val a b =
     (if kind a < kind b then - 1 else if kind a = kind b then 0 else 1)"

definition default_search :: value_callback where
  "default_search n v = compare_val (data n) v"

text \<open>Modelled from the spec: the constructor of the base class \<^verbatim>\<open>BST\<close>. A new tree is
  empty; initial data, when given, becomes its root as the root setter does it.\<close>

definition BST :: "val \<Rightarrow> state \<Rightarrow> tref \<times> state" where
  "BST d st =
     (let t = next_tree st;
          st1 = st\<lparr>trees := (trees st)(t := \<lparr>root_ptr = None, search = default_search\<rparr>),
                   next_tree := Suc t\<rparr>
      in if truthy d
         then (let (n, st2) = AVLDataNode d st1
               in (t, upd_tree t (\<lambda>x. x\<lparr>root_ptr := Some n\<rparr>) st2))
         else (t, st1))"

subsection \<open>The host ordered tree\<close>

text \<open>Modelled from the spec: \<^verbatim>\<open>BinarySearch(root, value, callback)\<close>, section 6:
  \<open>binarySearch(root, value, comparator) \<rightarrow> node|null\<close>. The callback answers for the
  candidate against the target: below it the search goes right, above it left.\<close>

fun BinarySearch_loop ::
  "nat \<Rightarrow> addr option \<Rightarrow> val \<Rightarrow> value_callback \<Rightarrow> state \<Rightarrow> addr option option" where
  "BinarySearch_loop k None v cb st = Some None"
| "BinarySearch_loop 0 (Some a) v cb st = None"
| "BinarySearch_loop (Suc k) (Some a) v cb st =
     (let c = cb (nodes st a) v
      in if c = 0 then Some (Some a)
         else if c < 0 then BinarySearch_loop k (right (nodes st a)) v cb st
         else BinarySearch_loop k (left (nodes st a)) v cb st)"

definition BinarySearch ::
  "addr option \<Rightarrow> val \<Rightarrow> value_callback \<Rightarrow> state \<Rightarrow> addr option option" where
  "BinarySearch r v cb st = BinarySearch_loop (next_node st) r v cb st"

text \<open>Modelled from the spec: the inherited method \<^verbatim>\<open>binarySearchNode(callback)\<close>, the
  same search driven by a callback on nodes (section 4.4, \<open>deleteNode\<close>).\<close>

fun binarySearchNode_loop ::
  "nat \<Rightarrow> addr option \<Rightarrow> node_callback \<Rightarrow> state \<Rightarrow> addr option option" where
  "binarySearchNode_loop k None cb st = Some None"
| "binarySearchNode_loop 0 (Some a) cb st = None"
| "binarySearchNode_loop (Suc k) (Some a) cb st =
     (let c = cb (nodes st a)
      in if c = 0 then Some (Some a)
         else if c < 0 then binarySearchNode_loop k (right (nodes st a)) cb st
         else binarySearchNode_loop k (left (nodes st a)) cb st)"

definition binarySearchNode :: "tref \<Rightarrow> node_callback \<Rightarrow> state \<Rightarrow> addr option option" where
  "binarySearchNode this cb st =
     binarySearchNode_loop (next_node st) (root_ptr (trees st this)) cb st"

text \<open>Modelled from the spec: \<^verbatim>\<open>InsertNodeInBST(tree, node, id)\<close>, section 6:
  \<open>structuralInsert(tree, node, id?) \<rightarrow> node|null\<close>, null when the host rejects a
  duplicate key. The node takes the id when one is given, and is linked as a leaf where
  the tree's comparator leads; a node whose payload compares equal to one on the way
  is rejected and nothing is linked.\<close>

fun InsertNodeInBST_loop ::
  "nat \<Rightarrow> value_callback \<Rightarrow> addr \<Rightarrow> addr \<Rightarrow> state \<Rightarrow> (addr option \<times> state) option" where
  "InsertNodeInBST_loop 0 cb cur n st = None"
| "InsertNodeInBST_loop (Suc k) cb cur n st =
     (let c = cb (nodes st cur) (data (nodes st n))
      in if c = 0 then Some (None, st)
         else if c < 0 then
           (case right (nodes st cur) of
              None \<Rightarrow> Some (Some n, upd_node n (\<lambda>x. x\<lparr>prev := Some cur\<rparr>)
                                      (upd_node cur (\<lambda>x. x\<lparr>right := Some n\<rparr>) st))
            | Some r \<Rightarrow> InsertNodeInBST_loop k cb r n st)
         else
           (case left (nodes st cur) of
              None \<Rightarrow> Some (Some n, upd_node n (\<lambda>x. x\<lparr>prev := Some cur\<rparr>)
                                      (upd_node cur (\<lambda>x. x\<lparr>left := Some n\<rparr>) st))
            | Some l \<Rightarrow> InsertNodeInBST_loop k cb l n st))"

definition InsertNodeInBST ::
  "tref \<Rightarrow> addr \<Rightarrow> val \<Rightarrow> state \<Rightarrow> (addr option \<times> state) option" where
  "InsertNodeInBST tree n i st =
     (let st1 = (if i = VUndef then st else upd_node n (\<lambda>x. x\<lparr>node_id := i\<rparr>) st)
      in case root_ptr (trees st1 tree) of
           None \<Rightarrow> Some (Some n, upd_tree tree (\<lambda>t. t\<lparr>root_ptr := Some n\<rparr>) st1)
         | Some r \<Rightarrow> InsertNodeInBST_loop (next_node st1) (search (trees st1 tree)) r n st1)"

text \<open>The in-order successor of a node with a right child: the leftmost node below that
  child.\<close>

fun leftmost :: "nat \<Rightarrow> addr \<Rightarrow> state \<Rightarrow> addr option" where
  "leftmost 0 a st = None"
| "leftmost (Suc k) a st =
     (case left (nodes st a) of None \<Rightarrow> Some a | Some l \<Rightarrow> leftmost k l st)"

text \<open>Unlinking a node with at most one child: the child, if any, takes its place under
  its parent (or as the root). The unlinked node's own fields are not touched.\<close>

definition unlink :: "addr \<Rightarrow> tref \<Rightarrow> state \<Rightarrow> state" where
  "unlink y tree st =
     (let x = (case left (nodes st y) of None \<Rightarrow> right (nodes st y) | Some l \<Rightarrow> Some l);
          p = prev (nodes st y);
          st1 = (case x of None \<Rightarrow> st | Some c \<Rightarrow> upd_node c (\<lambda>n. n\<lparr>prev := p\<rparr>) st)
      in case p of
           None \<Rightarrow> upd_tree tree (\<lambda>t. t\<lparr>root_ptr := x\<rparr>) st1
         | Some q \<Rightarrow>
             if left (nodes st1 q) = Some y
             then upd_node q (\<lambda>n. n\<lparr>left := x\<rparr>) st1
             else upd_node q (\<lambda>n. n\<lparr>right := x\<rparr>) st1)"

text \<open>Modelled from the spec: \<^verbatim>\<open>DeleteNodeInBST(node, tree)\<close>, section 6:
  \<open>structuralDelete(node, tree) \<rightarrow> node|null\<close>, which returns the node at the point
  where the physical unlinking occurred. Section 3: the deletion of a node with two
  children unlinks its in-order successor instead and overwrites the deleted node's
  payload (scenario C: the successor replaces it); any other node is unlinked itself.\<close>

definition DeleteNodeInBST :: "addr \<Rightarrow> tref \<Rightarrow> state \<Rightarrow> (addr option \<times> state) option" where
  "DeleteNodeInBST nd tree st =
     (case (left (nodes st nd), right (nodes st nd)) of
        (Some l, Some r) \<Rightarrow>
          (case leftmost (next_node st) r st of
             None \<Rightarrow> None
           | Some y \<Rightarrow>
               Some (Some y, unlink y tree (upd_node nd (\<lambda>n. n\<lparr>data := data (nodes st y)\<rparr>) st)))
      | _ \<Rightarrow> Some (Some nd, unlink nd tree st))"

text \<open>Modelled from the spec: the inherited method \<^verbatim>\<open>BFS(callback)\<close>, the breadth-first
  traversal of the tree (section 6), calling the callback on each node.\<close>

fun BFS_loop ::
  "nat \<Rightarrow> addr list \<Rightarrow> (addr \<Rightarrow> state \<Rightarrow> state option) \<Rightarrow> state \<Rightarrow> state option" where
  "BFS_loop k [] f st = Some st"
| "BFS_loop 0 (a # q) f st = None"
| "BFS_loop (Suc k) (a # q) f st =
     do {
       st1 \<leftarrow> f a st;
       BFS_loop k (q @ (case left (nodes st1 a) of None \<Rightarrow> [] | Some l \<Rightarrow> [l])
                     @ (case right (nodes st1 a) of None \<Rightarrow> [] | Some r \<Rightarrow> [r])) f st1
     }"

definition BFS :: "tref \<Rightarrow> (addr \<Rightarrow> state \<Rightarrow> state option) \<Rightarrow> state \<Rightarrow> state option" where
  "BFS this f st =
     BFS_loop (next_node st)
       (case root_ptr (trees st this) of None \<Rightarrow> [] | Some r \<Rightarrow> [r]) f st"


subsection \<open>The rotation engine\<close>

text \<open>The former parent of a rotated node points to the new subtree root; for a node
  without a parent that is the root field of the tree the caller passed.\<close>

definition splice :: "addr option \<Rightarrow> addr \<Rightarrow> addr \<Rightarrow> tref \<Rightarrow> state \<Rightarrow> state" where
  "splice p old new tree st =
     (case p of
        None \<Rightarrow> upd_tree tree (\<lambda>t. t\<lparr>root_ptr := Some new\<rparr>) st
      | Some q \<Rightarrow>
          if left (nodes st q) = Some old
          then upd_node q (\<lambda>x. x\<lparr>left := Some new\<rparr>) st
          else upd_node q (\<lambda>x. x\<lparr>right := Some new\<rparr>) st)"

text \<open>Modelled from the spec: a single rotation (section 4.2). A left rotation at \<open>n\<close>:
  the right child becomes the new subtree root, \<open>n\<close> its left child, the new root's old
  left child becomes \<open>n\<close>'s right child, the parent links of the three are rewritten and
  \<open>n\<close>'s former parent points to the new root. The balance factors of \<open>n\<close> and of the
  new root are recomputed in constant time; the spec does not give the arithmetic, the
  model uses the identities between the heights before and after a rotation.\<close>

definition rotate_left :: "addr \<Rightarrow> tref \<Rightarrow> state \<Rightarrow> (addr \<times> state) option" where
  "rotate_left n tree st =
     (case right (nodes st n) of
        None \<Rightarrow> None
      | Some r \<Rightarrow>
          (let g = left (nodes st r);
               p = prev (nodes st n);
               bn = balance (nodes st n) - 1 - max (balance (nodes st r)) 0;
               br = balance (nodes st r) - 1 + min bn 0;
               st1 = upd_node n (\<lambda>x. x\<lparr>prev := Some r, right := g, balance := bn\<rparr>) st;
               st2 = upd_node r (\<lambda>x. x\<lparr>prev := p, left := Some n, balance := br\<rparr>) st1;
               st3 = (case g of None \<Rightarrow> st2 | Some c \<Rightarrow> upd_node c (\<lambda>x. x\<lparr>prev := Some n\<rparr>) st2)
           in Some (r, splice p n r tree st3)))"

definition rotate_right :: "addr \<Rightarrow> tref \<Rightarrow> state \<Rightarrow> (addr \<times> state) option" where
  "rotate_right n tree st =
     (case left (nodes st n) of
        None \<Rightarrow> None
      | Some l \<Rightarrow>
          (let g = right (nodes st l);
               p = prev (nodes st n);
               bn = balance (nodes st n) + 1 - min (balance (nodes st l)) 0;
               bl = balance (nodes st l) + 1 + max bn 0;
               st1 = upd_node n (\<lambda>x. x\<lparr>prev := Some l, left := g, balance := bn\<rparr>) st;
               st2 = upd_node l (\<lambda>x. x\<lparr>prev := p, right := Some n, balance := bl\<rparr>) st1;
               st3 = (case g of None \<Rightarrow> st2 | Some c \<Rightarrow> upd_node c (\<lambda>x. x\<lparr>prev := Some n\<rparr>) st2)
           in Some (l, splice p n l tree st3)))"

text \<open>Modelled from the spec: \<open>rebalance(N) \<rightarrow> newSubtreeRoot\<close> (section 4.2), the four
  cases in the spec's order. Called on a node whose balance factor is neither \<open>2\<close> nor
  \<open>-2\<close>, or that lacks the child to rotate, it fails (section 7).\<close>

definition rebalance :: "addr \<Rightarrow> tref \<Rightarrow> state \<Rightarrow> (addr \<times> state) option" where
  "rebalance n tree st =
     (if balance (nodes st n) = 2 then
        (case right (nodes st n) of
           None \<Rightarrow> None
         | Some r \<Rightarrow>
             if 0 \<le> balance (nodes st r) then rotate_left n tree st
             else do { (_, st1) \<leftarrow> rotate_right r tree st; rotate_left n tree st1 })
      else if balance (nodes st n) = - 2 then
        (case left (nodes st n) of
           None \<Rightarrow> None
         | Some l \<Rightarrow>
             if balance (nodes st l) \<le> 0 then rotate_right n tree st
             else do { (_, st1) \<leftarrow> rotate_left l tree st; rotate_right n tree st1 })
      else None)"

subsection \<open>The balance propagator\<close>

text \<open>Modelled from the spec: \<^verbatim>\<open>SetBalanceFactorsBackward(node, tree)\<close>, the post-insertion
  mode of section 4.3. From the new leaf's parent upward: the ancestor's balance factor
  goes down by one when the edit is in its left subtree and up by one otherwise; at 0
  the walk stops, at \<open>\<plusminus>1\<close> it goes on to the parent, and at \<open>\<plusminus>2\<close> the ancestor is
  rebalanced and the walk stops.\<close>

fun propagateBackward :: "nat \<Rightarrow> addr \<Rightarrow> tref \<Rightarrow> state \<Rightarrow> state option" where
  "propagateBackward 0 c tree st = None"
| "propagateBackward (Suc k) c tree st =
     (case prev (nodes st c) of
        None \<Rightarrow> Some st
      | Some a \<Rightarrow>
          (let b = balance (nodes st a) + (if left (nodes st a) = Some c then - 1 else 1);
               st1 = upd_node a (\<lambda>x. x\<lparr>balance := b\<rparr>) st
           in if b = 0 then Some st1
              else if b = 1 \<or> b = - 1 then propagateBackward k a tree st1
              else map_option snd (rebalance a tree st1)))"

definition SetBalanceFactorsBackward :: "addr \<Rightarrow> tref \<Rightarrow> state \<Rightarrow> state option" where
  "SetBalanceFactorsBackward nd tree st = propagateBackward (Suc (next_node st)) nd tree st"

text \<open>Modelled from the spec: \<^verbatim>\<open>SetBalanceFactorsForward(startNode, tree)\<close>, the
  post-deletion mode of section 4.3. The host returns the unlinked node, whose parent
  link still records the parent of the removed link; the walk starts at that parent.
  For each ancestor: the balance factor goes up by one when the node was removed from
  its left subtree and down by one otherwise; at \<open>\<plusminus>1\<close> the walk goes on to the parent,
  at 0 it stops, and at \<open>\<plusminus>2\<close> the ancestor is rebalanced and the walk goes on from the
  new subtree root's parent. The spec does not say how the side is found; the model
  asks the tree's comparator whether the ancestor is above the removed payload (an
  ancestor that compares equal holds the payload of its successor, removed on its
  right). The spec's edge case, a null start node with the propagation beginning at the
  recorded parent of the removed link, needs that parent recorded: here the record is
  the unlinked node's own parent link, so the host always returns a node, and a null
  start node leaves nothing to walk.\<close>

fun propagateForward :: "nat \<Rightarrow> val \<Rightarrow> addr option \<Rightarrow> tref \<Rightarrow> state \<Rightarrow> state option" where
  "propagateForward k removed None tree st = Some st"
| "propagateForward 0 removed (Some a) tree st = None"
| "propagateForward (Suc k) removed (Some a) tree st =
     (let b = balance (nodes st a)
                + (if 0 < search (trees st tree) (nodes st a) removed then 1 else - 1);
          st1 = upd_node a (\<lambda>x. x\<lparr>balance := b\<rparr>) st
      in if b = 1 \<or> b = - 1 then propagateForward k removed (prev (nodes st1 a)) tree st1
         else if b = 0 then Some st1
         else do {
           (r, st2) \<leftarrow> rebalance a tree st1;
           propagateForward k removed (prev (nodes st2 r)) tree st2
         })"

definition SetBalanceFactorsForward :: "addr option \<Rightarrow> tref \<Rightarrow> state \<Rightarrow> state option" where
  "SetBalanceFactorsForward startNode tree st =
     (case startNode of
        None \<Rightarrow> Some st
      | Some y \<Rightarrow>
          propagateForward (next_node st) (data (nodes st y)) (prev (nodes st y)) tree st)"

text \<open>Modelled from the spec: \<^verbatim>\<open>SetBalanceFactorsAfterDeletion(startNode, tree)\<close>. The spec
  has one post-deletion mode and describes \<open>deleteNode\<close> as \<open>delete\<close> with another
  locator, so this is that mode.\<close>

definition SetBalanceFactorsAfterDeletion :: "addr option \<Rightarrow> tref \<Rightarrow> state \<Rightarrow> state option" where
  "SetBalanceFactorsAfterDeletion startNode tree st = SetBalanceFactorsForward startNode tree st"

text \<open>The imports as the specification describes them.\<close>

definition spec_imported :: imported where
  "spec_imported =
     \<lparr>ext_AVLDataNode = AVLDataNode,
      ext_BST = BST,
      ext_InsertNodeInBST = InsertNodeInBST,
      ext_DeleteNodeInBST = DeleteNodeInBST,
      ext_BinarySearch = BinarySearch,
      ext_binarySearchNode = binarySearchNode,
      ext_BFS = BFS,
      ext_SetBalanceFactorsBackward = SetBalanceFactorsBackward,
      ext_SetBalanceFactorsForward = SetBalanceFactorsForward,
      ext_SetBalanceFactorsAfterDeletion = SetBalanceFactorsAfterDeletion\<rparr>"


section \<open>Observing a tree\<close>

text \<open>The node graph below a link, read off the store: payloads and stored balance
  factors in shape. The depth bound is the number of allocated nodes.\<close>

datatype shape = Tip | Br shape val int shape

fun snapshot_loop :: "nat \<Rightarrow> state \<Rightarrow> addr option \<Rightarrow> shape" where
  "snapshot_loop k st None = Tip"
| "snapshot_loop 0 st (Some a) = Tip"
| "snapshot_loop (Suc k) st (Some a) =
     Br (snapshot_loop k st (left (nodes st a))) (data (nodes st a)) (balance (nodes st a))
        (snapshot_loop k st (right (nodes st a)))"

definition snapshot :: "tref \<Rightarrow> state \<Rightarrow> shape" where
  "snapshot t st = snapshot_loop (next_node st) st (root_ptr (trees st t))"

text \<open>Heights by a full traversal, \<open>height(null) = -1\<close> (invariant I3), and invariant I2
  checked against them at every node.\<close>

fun height :: "shape \<Rightarrow> int" where
  "height Tip = - 1"
| "height (Br l d b r) = 1 + max (height l) (height r)"

fun balanced :: "shape \<Rightarrow> bool" where
  "balanced Tip = True"
| "balanced (Br l d b r) =
     ((b = - 1 \<or> b = 0 \<or> b = 1) \<and> b = height r - height l \<and> balanced l \<and> balanced r)"

fun payloads :: "shape \<Rightarrow> val list" where
  "payloads Tip = []"
| "payloads (Br l d b r) = payloads l @ d # payloads r"

text \<open>A start state: no node and no tree allocated.\<close>

definition empty_state :: state where
  "empty_state =
     \<lparr>nodes = (\<lambda>a. \<lparr>data = VUndef, node_id = VUndef, prev = None, left = None, right = None,
                    balance = 0\<rparr>),
      trees = (\<lambda>t. \<lparr>root_ptr = None, search = default_search\<rparr>),
      next_node = 0, next_tree = 0\<rparr>"

text \<open>Inserting number payloads one after the other, without an id argument.\<close>

fun inserts :: "imported \<Rightarrow> tref \<Rightarrow> int list \<Rightarrow> state \<Rightarrow> state option" where
  "inserts env t [] st = Some st"
| "inserts env t (x # xs) st =
     do { (_, st1) \<leftarrow> AVLTree_insert env t (VNum x) VUndef st; inserts env t xs st1 }"


section \<open>Concrete trees\<close>

text \<open>A new empty tree, with reference 0, and the tree grown from it by a sequence of
  inserts. Nodes get their addresses in the order of their insertion, from 0.\<close>

definition new_tree :: state where
  "new_tree = snd (AVLTree spec_imported VUndef empty_state)"

definition built :: "int list \<Rightarrow> state" where
  "built xs = the (inserts spec_imported 0 xs new_tree)"

text \<open>The tree of 2, 1 and 3 when a node for a second 3 has been allocated, and when the
  host has then been asked to insert that node.\<close>

definition dup_alloc :: state where
  "dup_alloc = snd (AVLDataNode (VNum 3) (built [2, 1, 3]))"

definition dup_rejected :: state where
  "dup_rejected = snd (the (InsertNodeInBST 0 3 VUndef dup_alloc))"

text \<open>The tree of 2, 1 and 3 when the host has unlinked the leaf 1 (at address 1), and
  when the balance factors have then been propagated.\<close>

definition leaf_unlinked :: state where
  "leaf_unlinked = snd (the (DeleteNodeInBST 1 0 (built [2, 1, 3])))"

definition leaf_removed :: state where
  "leaf_removed = the (SetBalanceFactorsAfterDeletion (Some 1) 0 leaf_unlinked)"

text \<open>A tree of twelve nodes whose leaf 1 (at address 3) has been unlinked by the host,
  and the same tree after the rebalancing of its first ancestor 2 (at address 1), whose
  balance factor the removal brings to 2.\<close>

definition two_level_unlinked :: state where
  "two_level_unlinked =
     snd (the (DeleteNodeInBST 3 0 (built [5, 2, 8, 1, 3, 7, 10, 4, 6, 9, 11, 12])))"

definition two_level_rotated :: state where
  "two_level_rotated =
     snd (the (rebalance 1 0 (upd_node 1 (\<lambda>x. x\<lparr>balance := 2\<rparr>) two_level_unlinked)))"


section \<open>The facade, over any imports\<close>

lemma returned_pair: "map_option fst X = Some a \<Longrightarrow> X = Some (a, snd (the X))"
  by (cases X) auto

lemma returned_state: "map_option (\<lambda>_. True) X = Some True \<Longrightarrow> X = Some (the X)"
  by (cases X) auto

subsection \<open>The root getter\<close>

text \<open>
  Claim C10. For a non-empty tree whose root node holds a falsy payload (such as 0, the
  empty string or \<open>false\<close>) the root getter returns \<open>null\<close>, as it does for an empty
  tree; it returns the root's payload when that payload is truthy.
\<close>

theorem root_getter_falsy_payload:
  "(root_ptr (trees st this) = None \<longrightarrow> AVLTree_root this st = VNull) \<and>
   (root_ptr (trees st this) = Some r \<longrightarrow>
      AVLTree_root this st =
        (if truthy (data (nodes st r)) then data (nodes st r) else VNull)) \<and>
   (root_ptr (trees st this) = Some r \<and> data (nodes st r) \<in> {VNum 0, VStr [], VBool False} \<longrightarrow>
      AVLTree_root this st = VNull)"
  by (auto simp: AVLTree_root_def js_or_def)

text \<open>The tree holding the single payload 0, the empty tree, and the tree holding 7.\<close>

theorem root_getter_falsy_payload_witness:
  "root_ptr (trees (built [0]) 0) = Some 0 \<and> data (nodes (built [0]) 0) = VNum 0 \<and>
   AVLTree_root 0 (built [0]) = VNull \<and>
   root_ptr (trees new_tree 0) = None \<and> AVLTree_root 0 new_tree = VNull \<and>
   root_ptr (trees (built [7]) 0) = Some 0 \<and> AVLTree_root 0 (built [7]) = VNum 7"
proof -
  have r0: "root_ptr (trees (built [0]) 0) = Some 0" by code_simp
  have d0: "data (nodes (built [0]) 0) = VNum 0" by code_simp
  have e: "root_ptr (trees new_tree 0) = None" by code_simp
  have r7: "root_ptr (trees (built [7]) 0) = Some 0" by code_simp
  have d7: "data (nodes (built [7]) 0) = VNum 7" by code_simp
  from root_getter_falsy_payload [of "built [0]" 0 0] r0 d0
  have a: "AVLTree_root 0 (built [0]) = VNull" by simp
  from root_getter_falsy_payload [of new_tree 0 0] e
  have b: "AVLTree_root 0 new_tree = VNull" by simp
  from root_getter_falsy_payload [of "built [7]" 0 0] r7 d7
  have c: "AVLTree_root 0 (built [7]) = VNum 7" by simp
  from r0 d0 a e b r7 c show ?thesis by simp
qed

subsection \<open>insert\<close>

text \<open>
  Claim C9. When the payload carries a truthy \<open>id\<close>, the identifier insert hands to
  the host's structural insert is the payload's own id, whatever id argument is
  supplied; the id argument is handed to the host only when the payload has no truthy
  id.
\<close>

theorem insert_payload_id_overrides:
  "(truthy (opt_prop d ''id'') \<longrightarrow>
      AVLTree_insert env this d i st =
        (let (n, st1) = ext_AVLDataNode env d st
         in do {
           (node, st2) \<leftarrow> ext_InsertNodeInBST env this n (opt_prop d ''id'') st1;
           case node of
             None \<Rightarrow> Some (this, st2)
           | Some nd \<Rightarrow> do {
               st3 \<leftarrow> ext_SetBalanceFactorsBackward env nd this st2;
               Some (this, st3)
             }
         })) \<and>
   (truthy (opt_prop d ''id'') \<longrightarrow>
      (\<forall>j. AVLTree_insert env this d i st = AVLTree_insert env this d j st)) \<and>
   (\<not> truthy (opt_prop d ''id'') \<longrightarrow>
      AVLTree_insert env this d i st =
        (let (n, st1) = ext_AVLDataNode env d st
         in do {
           (node, st2) \<leftarrow> ext_InsertNodeInBST env this n i st1;
           case node of
             None \<Rightarrow> Some (this, st2)
           | Some nd \<Rightarrow> do {
               st3 \<leftarrow> ext_SetBalanceFactorsBackward env nd this st2;
               Some (this, st3)
             }
         }))"
  by (simp add: AVLTree_insert_def)

text \<open>Inserted with the id argument \<^verbatim>\<open>"b"\<close> into the empty tree: the payload
  \<^verbatim>\<open>{id: "a"}\<close> gets the identifier \<^verbatim>\<open>"a"\<close>; a payload that inherits the id \<^verbatim>\<open>"p"\<close>
  from its prototype gets \<^verbatim>\<open>"p"\<close>; the payload 7 and the payload \<^verbatim>\<open>{id: 0}\<close>, which
  have no truthy id, get \<^verbatim>\<open>"b"\<close>.\<close>

theorem insert_payload_id_overrides_witness:
  "truthy (opt_prop (VObj [(''id'', VStr ''a'')] VNull) ''id'') \<and>
   map_option (\<lambda>(t, s). node_id (nodes s 0))
     (AVLTree_insert spec_imported 0 (VObj [(''id'', VStr ''a'')] VNull) (VStr ''b'') new_tree) =
     Some (VStr ''a'') \<and>
   truthy (opt_prop (VObj [] (VObj [(''id'', VStr ''p'')] VNull)) ''id'') \<and>
   map_option (\<lambda>(t, s). node_id (nodes s 0))
     (AVLTree_insert spec_imported 0 (VObj [] (VObj [(''id'', VStr ''p'')] VNull)) (VStr ''b'')
        new_tree) = Some (VStr ''p'') \<and>
   \<not> truthy (opt_prop (VNum 7) ''id'') \<and>
   map_option (\<lambda>(t, s). node_id (nodes s 0))
     (AVLTree_insert spec_imported 0 (VNum 7) (VStr ''b'') new_tree) = Some (VStr ''b'') \<and>
   \<not> truthy (opt_prop (VObj [(''id'', VNum 0)] VNull) ''id'') \<and>
   map_option (\<lambda>(t, s). node_id (nodes s 0))
     (AVLTree_insert spec_imported 0 (VObj [(''id'', VNum 0)] VNull) (VStr ''b'') new_tree) =
     Some (VStr ''b'')"
proof -
  have t1: "truthy (opt_prop (VObj [(''id'', VStr ''a'')] VNull) ''id'')" by simp
  note e1 = insert_payload_id_overrides
    [of "VObj [(''id'', VStr ''a'')] VNull" spec_imported 0 "VStr ''b''" new_tree,
     THEN conjunct1, THEN mp, OF t1]
  have a: "map_option (\<lambda>(t, s). node_id (nodes s 0))
     (AVLTree_insert spec_imported 0 (VObj [(''id'', VStr ''a'')] VNull) (VStr ''b'') new_tree) =
     Some (VStr ''a'')"
    unfolding e1 by code_simp
  have t2: "truthy (opt_prop (VObj [] (VObj [(''id'', VStr ''p'')] VNull)) ''id'')" by simp
  note e2 = insert_payload_id_overrides
    [of "VObj [] (VObj [(''id'', VStr ''p'')] VNull)" spec_imported 0 "VStr ''b''" new_tree,
     THEN conjunct1, THEN mp, OF t2]
  have b: "map_option (\<lambda>(t, s). node_id (nodes s 0))
     (AVLTree_insert spec_imported 0 (VObj [] (VObj [(''id'', VStr ''p'')] VNull)) (VStr ''b'')
        new_tree) = Some (VStr ''p'')"
    unfolding e2 by code_simp
  have f3: "\<not> truthy (opt_prop (VNum 7) ''id'')" by simp
  note e3 = insert_payload_id_overrides
    [of "VNum 7" spec_imported 0 "VStr ''b''" new_tree,
     THEN conjunct2, THEN conjunct2, THEN mp, OF f3]
  have c: "map_option (\<lambda>(t, s). node_id (nodes s 0))
     (AVLTree_insert spec_imported 0 (VNum 7) (VStr ''b'') new_tree) = Some (VStr ''b'')"
    unfolding e3 by code_simp
  have f4: "\<not> truthy (opt_prop (VObj [(''id'', VNum 0)] VNull) ''id'')" by simp
  note e4 = insert_payload_id_overrides
    [of "VObj [(''id'', VNum 0)] VNull" spec_imported 0 "VStr ''b''" new_tree,
     THEN conjunct2, THEN conjunct2, THEN mp, OF f4]
  have d: "map_option (\<lambda>(t, s). node_id (nodes s 0))
     (AVLTree_insert spec_imported 0 (VObj [(''id'', VNum 0)] VNull) (VStr ''b'') new_tree) =
     Some (VStr ''b'')"
    unfolding e4 by code_simp
  from t1 a t2 b f3 c f4 d show ?thesis by simp
qed

text \<open>
  Claim C7. insert returns the tree it was called on. When the host's structural insert
  returns \<open>null\<close>, insert runs no balance propagation and returns, without throwing, in
  the state the host returned in; when the host returns a node, insert returns once the
  propagation has.
\<close>

theorem insert_returns_this:
  assumes "ext_AVLDataNode env d st = (n, st1)"
    and "i1 = (if truthy (opt_prop d ''id'') then opt_prop d ''id'' else i)"
  shows "(ext_InsertNodeInBST env this n i1 st1 = Some (None, st2) \<longrightarrow>
            AVLTree_insert env this d i st = Some (this, st2)) \<and>
         (ext_InsertNodeInBST env this n i1 st1 = Some (Some nd, st2) \<and>
          ext_SetBalanceFactorsBackward env nd this st2 = Some st3 \<longrightarrow>
            AVLTree_insert env this d i st = Some (this, st3)) \<and>
         (\<forall>r st'. AVLTree_insert env this d i st = Some (r, st') \<longrightarrow> r = this)"
  using assms
  by (auto simp: AVLTree_insert_def split: option.splits prod.splits bind_splits)

text \<open>A second 3 inserted into the tree of 2, 1 and 3: the host rejects it, and the tree
  is as it was. A 4 is inserted, and the same tree is returned.\<close>

theorem insert_returns_this_witness:
  "AVLTree_insert spec_imported 0 (VNum 3) VUndef (built [2, 1, 3]) = Some (0, dup_rejected) \<and>
   snapshot 0 dup_rejected = snapshot 0 (built [2, 1, 3]) \<and>
   root_ptr (trees dup_rejected 0) = root_ptr (trees (built [2, 1, 3]) 0) \<and>
   map_option fst (AVLTree_insert spec_imported 0 (VNum 4) VUndef (built [2, 1, 3])) = Some 0"
proof -
  have al: "ext_AVLDataNode spec_imported (VNum 3) (built [2, 1, 3]) = (3, dup_alloc)"
  proof -
    have "fst (AVLDataNode (VNum 3) (built [2, 1, 3])) = 3" by code_simp
    then show ?thesis
      by (simp add: spec_imported_def dup_alloc_def prod_eq_iff)
  qed
  have i1: "VUndef = (if truthy (opt_prop (VNum 3) ''id'') then opt_prop (VNum 3) ''id'' else VUndef)"
    by simp
  have "map_option fst (InsertNodeInBST 0 3 VUndef dup_alloc) = Some None" by code_simp
  from returned_pair [OF this]
  have rej: "ext_InsertNodeInBST spec_imported 0 3 VUndef dup_alloc = Some (None, dup_rejected)"
    by (simp add: spec_imported_def dup_rejected_def)
  from insert_returns_this [OF al i1, of 0 dup_rejected] rej
  have a: "AVLTree_insert spec_imported 0 (VNum 3) VUndef (built [2, 1, 3]) = Some (0, dup_rejected)"
    by blast
  have s: "snapshot 0 dup_rejected = snapshot 0 (built [2, 1, 3])" by code_simp
  have r: "root_ptr (trees dup_rejected 0) = root_ptr (trees (built [2, 1, 3]) 0)" by code_simp
  have b: "map_option fst (AVLTree_insert spec_imported 0 (VNum 4) VUndef (built [2, 1, 3])) = Some 0"
    by code_simp
  from a s r b show ?thesis by simp
qed

text \<open>The host as specified links nothing when it rejects a node: the store it returns
  in is the one it was called in, but for the id the new node has taken.\<close>

lemma InsertNodeInBST_loop_rejects:
  "InsertNodeInBST_loop k cb cur n st = Some (None, st') \<Longrightarrow> st' = st"
  by (induction k arbitrary: cur) (auto simp: Let_def split: if_splits option.splits)

lemma InsertNodeInBST_rejects:
  assumes "InsertNodeInBST tree n i st = Some (None, st')"
  shows "st' = (if i = VUndef then st else upd_node n (\<lambda>x. x\<lparr>node_id := i\<rparr>) st)"
  using assms InsertNodeInBST_loop_rejects
  by (fastforce simp: InsertNodeInBST_def Let_def split: option.splits if_splits)

subsection \<open>delete and deleteNode\<close>

text \<open>
  Claim C4. When the binary search finds no node for the value, delete returns \<open>null\<close>,
  without throwing, and the store is the one it was called in: no link and no balance
  factor has changed. Likewise deleteNode, when its locator callback matches no node.
\<close>

theorem delete_miss_is_noop:
  "(ext_BinarySearch env (root_ptr (trees st this)) v
       (case callback of None \<Rightarrow> search (trees st this) | Some c \<Rightarrow> c) st = Some None \<longrightarrow>
      AVLTree_delete env this v callback st = Some (VNull, st)) \<and>
   (ext_binarySearchNode env this cb st = Some None \<longrightarrow>
      AVLTree_deleteNode env this cb st = Some (None, st))"
  by (simp add: AVLTree_delete_def AVLTree_deleteNode_def)

text \<open>The value 9 is not in the tree of 2, 1 and 3.\<close>

theorem delete_miss_is_noop_witness:
  "AVLTree_delete spec_imported 0 (VNum 9) None (built [2, 1, 3]) = Some (VNull, built [2, 1, 3]) \<and>
   AVLTree_deleteNode spec_imported 0 (\<lambda>n. default_search n (VNum 9)) (built [2, 1, 3]) =
     Some (None, built [2, 1, 3]) \<and>
   payloads (snapshot 0 (built [2, 1, 3])) = [VNum 1, VNum 2, VNum 3]"
proof -
  have m1: "ext_BinarySearch spec_imported (root_ptr (trees (built [2, 1, 3]) 0)) (VNum 9)
       (case None of None \<Rightarrow> search (trees (built [2, 1, 3]) 0) | Some c \<Rightarrow> c) (built [2, 1, 3]) = Some None"
    by code_simp
  have m2: "ext_binarySearchNode spec_imported 0 (\<lambda>n. default_search n (VNum 9)) (built [2, 1, 3]) = Some None"
    by code_simp
  have p: "payloads (snapshot 0 (built [2, 1, 3])) = [VNum 1, VNum 2, VNum 3]" by code_simp
  from delete_miss_is_noop [of spec_imported "built [2, 1, 3]" 0 "VNum 9" None
         "\<lambda>n. default_search n (VNum 9)"] m1 m2 p
  show ?thesis by blast
qed

text \<open>
  Claim C8. When the locator callback matches a node, and the host's delete and the
  propagation return, deleteNode returns that node with its parent link, its left child
  and its right child set to \<open>null\<close> and its balance factor set to 0.
\<close>

theorem deleteNode_returns_detached_node:
  assumes "ext_binarySearchNode env this cb st = Some (Some nd)"
    and "ext_DeleteNodeInBST env nd this st = Some (p, st1)"
    and "ext_SetBalanceFactorsAfterDeletion env p this st1 = Some st2"
  shows "\<exists>st'. AVLTree_deleteNode env this cb st = Some (Some nd, st') \<and>
           prev (nodes st' nd) = None \<and> left (nodes st' nd) = None \<and>
           right (nodes st' nd) = None \<and> balance (nodes st' nd) = 0"
  using assms by (simp add: AVLTree_deleteNode_def upd_node_def)

text \<open>The leaf 1 of the tree of 2, 1 and 3, whose parent link is set before the call.\<close>

theorem deleteNode_returns_detached_node_witness:
  "prev (nodes (built [2, 1, 3]) 1) = Some 0 \<and>
   (\<exists>st'. AVLTree_deleteNode spec_imported 0 (\<lambda>n. default_search n (VNum 1)) (built [2, 1, 3]) =
            Some (Some 1, st') \<and>
          prev (nodes st' 1) = None \<and> left (nodes st' 1) = None \<and>
          right (nodes st' 1) = None \<and> balance (nodes st' 1) = 0)"
proof -
  have f: "ext_binarySearchNode spec_imported 0 (\<lambda>n. default_search n (VNum 1)) (built [2, 1, 3])
             = Some (Some 1)" by code_simp
  have "map_option fst (DeleteNodeInBST 1 0 (built [2, 1, 3])) = Some (Some 1)" by code_simp
  from returned_pair [OF this]
  have d: "ext_DeleteNodeInBST spec_imported 1 0 (built [2, 1, 3]) = Some (Some 1, leaf_unlinked)"
    by (simp add: spec_imported_def leaf_unlinked_def)
  have "map_option (\<lambda>_. True) (SetBalanceFactorsAfterDeletion (Some 1) 0 leaf_unlinked) = Some True"
    by code_simp
  from returned_state [OF this]
  have s: "ext_SetBalanceFactorsAfterDeletion spec_imported (Some 1) 0 leaf_unlinked = Some leaf_removed"
    by (simp add: spec_imported_def leaf_removed_def)
  have b: "prev (nodes (built [2, 1, 3]) 1) = Some 0" by code_simp
  from deleteNode_returns_detached_node [OF f d s] b show ?thesis by blast
qed

text \<open>On a hit delete returns the payload the located node holds when the host's delete
  and the propagation have returned, whatever they did to it.\<close>

lemma delete_returns_final_payload:
  assumes "ext_BinarySearch env (root_ptr (trees st this)) v
             (case callback of None \<Rightarrow> search (trees st this) | Some c \<Rightarrow> c) st = Some (Some nd)"
    and "ext_DeleteNodeInBST env nd this st = Some (p, st1)"
    and "ext_SetBalanceFactorsForward env p this st1 = Some st2"
  shows "AVLTree_delete env this v callback st = Some (data (nodes st2 nd), st2)"
  using assms by (simp add: AVLTree_delete_def)

text \<open>The two deletions differ in the search, in the name of the propagation
  they call, and in what deleteNode does last: when both searches locate the same node
  and both propagations are the same function, deleteNode ends in the store delete ends
  in, with the located node's links and balance factor cleared.\<close>

lemma deleteNode_is_delete_then_clear:
  assumes "ext_BinarySearch env (root_ptr (trees st this)) v
             (case callback of None \<Rightarrow> search (trees st this) | Some c \<Rightarrow> c) st = Some (Some nd)"
    and "ext_binarySearchNode env this cb st = Some (Some nd)"
    and "ext_SetBalanceFactorsAfterDeletion env = ext_SetBalanceFactorsForward env"
    and "AVLTree_delete env this v callback st = Some (d, st')"
  shows "AVLTree_deleteNode env this cb st =
           Some (Some nd,
                 upd_node nd (\<lambda>n. n\<lparr>prev := None, left := None, right := None, balance := 0\<rparr>) st')"
  using assms
  by (auto simp: AVLTree_delete_def AVLTree_deleteNode_def split: bind_splits)


section \<open>The facade on the imports as specified\<close>

subsection \<open>Propagation after a deletion\<close>

text \<open>
  Claim C5. When the post-deletion propagation finds an ancestor at \<open>\<plusminus>2\<close> and rebalances
  it, the propagation does not stop there: it goes on from the parent of the new subtree
  root, so that one deletion may rotate at several levels.
\<close>

theorem forward_propagation_continues_after_rotation:
  assumes "b = balance (nodes st a)
                 + (if 0 < search (trees st tree) (nodes st a) removed then 1 else - 1)"
    and "b = 2 \<or> b = - 2"
    and "rebalance a tree (upd_node a (\<lambda>x. x\<lparr>balance := b\<rparr>) st) = Some (r, st2)"
  shows "propagateForward (Suc k) removed (Some a) tree st =
           propagateForward k removed (prev (nodes st2 r)) tree st2"
  using assms by (auto simp: Let_def)

text \<open>
  Deleting 1 from the tree of twelve nodes: the parent 2 (address 1) comes to 2 and is
  rotated, 3 (address 4) becomes the subtree root under the tree's root 5 (address 0);
  the propagation goes on from 5, and when it ends the root of the tree is 8 (address
  2): a second rotation, at the root.
\<close>

theorem forward_propagation_continues_after_rotation_witness:
  "balance (nodes two_level_unlinked 1)
     + (if 0 < search (trees two_level_unlinked 0) (nodes two_level_unlinked 1) (VNum 1)
        then 1 else - 1) = 2 \<and>
   map_option fst (rebalance 1 0 (upd_node 1 (\<lambda>x. x\<lparr>balance := 2\<rparr>) two_level_unlinked)) = Some 4 \<and>
   prev (nodes two_level_rotated 4) = Some 0 \<and>
   root_ptr (trees two_level_rotated 0) = Some 0 \<and>
   propagateForward 12 (VNum 1) (Some 1) 0 two_level_unlinked =
     propagateForward 11 (VNum 1) (Some 0) 0 two_level_rotated \<and>
   map_option (\<lambda>s. root_ptr (trees s 0))
     (propagateForward 12 (VNum 1) (Some 1) 0 two_level_unlinked) = Some (Some 2) \<and>
   map_option (\<lambda>(v, s). snapshot 0 s)
     (AVLTree_delete spec_imported 0 (VNum 1) None (built [5, 2, 8, 1, 3, 7, 10, 4, 6, 9, 11, 12])) =
     map_option (snapshot 0) (propagateForward 12 (VNum 1) (Some 1) 0 two_level_unlinked)"
proof -
  have b: "(2::int) = balance (nodes two_level_unlinked 1)
     + (if 0 < search (trees two_level_unlinked 0) (nodes two_level_unlinked 1) (VNum 1)
        then 1 else - 1)" by code_simp
  have two: "(2::int) = 2 \<or> (2::int) = - 2" by simp
  have f: "map_option fst (rebalance 1 0 (upd_node 1 (\<lambda>x. x\<lparr>balance := 2\<rparr>) two_level_unlinked)) = Some 4"
    by code_simp
  from returned_pair [OF f]
  have r: "rebalance 1 0 (upd_node 1 (\<lambda>x. x\<lparr>balance := 2\<rparr>) two_level_unlinked) = Some (4, two_level_rotated)"
    by (simp add: two_level_rotated_def)
  have p: "prev (nodes two_level_rotated 4) = Some 0" by code_simp
  have q: "root_ptr (trees two_level_rotated 0) = Some 0" by code_simp
  from forward_propagation_continues_after_rotation [OF b two r, of 11]
  have c: "propagateForward 12 (VNum 1) (Some 1) 0 two_level_unlinked =
     propagateForward 11 (VNum 1) (Some 0) 0 two_level_rotated"
    unfolding p by (simp add: eval_nat_numeral)
  have e: "map_option (\<lambda>s. root_ptr (trees s 0))
     (propagateForward 11 (VNum 1) (Some 0) 0 two_level_rotated) = Some (Some 2)" by code_simp
  have d: "map_option (\<lambda>(v, s). snapshot 0 s)
     (AVLTree_delete spec_imported 0 (VNum 1) None (built [5, 2, 8, 1, 3, 7, 10, 4, 6, 9, 11, 12])) =
     map_option (snapshot 0) (propagateForward 12 (VNum 1) (Some 1) 0 two_level_unlinked)"
    by code_simp
  from b f p q c e d show ?thesis by simp
qed

subsection \<open>The balance invariant\<close>

text \<open>Scenarios A and B of the specification: ascending inserts rotate left at the
  root, the order 30, 10, 20 rotates twice, and both end in the same tree.\<close>

lemma scenario_A_and_B:
  "map_option (snapshot 0) (inserts spec_imported 0 [10, 20, 30] new_tree) =
     Some (Br (Br Tip (VNum 10) 0 Tip) (VNum 20) 0 (Br Tip (VNum 30) 0 Tip)) \<and>
   map_option (snapshot 0) (inserts spec_imported 0 [30, 10, 20] new_tree) =
     Some (Br (Br Tip (VNum 10) 0 Tip) (VNum 20) 0 (Br Tip (VNum 30) 0 Tip))"
  by code_simp

text \<open>Inserts alone, ascending and in a mixed order: every tree on the way is balanced.\<close>

lemma inserts_keep_balance_examples:
  "map (\<lambda>k. map_option (balanced \<circ> snapshot 0)
               (inserts spec_imported 0 (take k [1, 2, 3, 4, 5, 6, 7, 8, 9]) new_tree)) [0, 1, 2, 3, 4, 5, 6, 7, 8, 9]
     = replicate 10 (Some True) \<and>
   map (\<lambda>k. map_option (balanced \<circ> snapshot 0)
               (inserts spec_imported 0 (take k [8, 3, 9, 1, 5, 4, 7, 2, 6]) new_tree)) [0, 1, 2, 3, 4, 5, 6, 7, 8, 9]
     = replicate 10 (Some True)"
  by code_simp

text \<open>
  Deletions. The post-deletion mode as section 4.3 words it (go on at \<open>\<plusminus>1\<close>, stop at
  0) does not agree with invariant I2 of the same specification, on its own scenario C:
  deleting 4 from the tree of 1 to 7 leaves the new root 5 with the stored factor
  \<open>-1\<close> over two subtrees of height 1. Section 9 of the specification reports that
  the source goes on at 0. The code of the propagation is not among the sources, so the
  invariant is neither proved nor refuted for deletions here.
\<close>

lemma scenario_C_with_section_4_3:
  "do {
     st \<leftarrow> inserts spec_imported 0 [1, 2, 3, 4, 5, 6, 7] new_tree;
     (v, st1) \<leftarrow> AVLTree_delete spec_imported 0 (VNum 4) None st;
     Some (balanced (snapshot 0 st), snapshot 0 st1, balanced (snapshot 0 st1))
   } = Some (True,
             Br (Br (Br Tip (VNum 1) 0 Tip) (VNum 2) 0 (Br Tip (VNum 3) 0 Tip)) (VNum 5) (- 1)
                (Br Tip (VNum 6) 1 (Br Tip (VNum 7) 0 Tip)),
             False)"
  by code_simp

subsection \<open>The payload delete returns\<close>

text \<open>
  Claim C3 says that delete returns the payload the located node held before the
  structural unlink, also when the node has two children and the host overwrites its
  payload with the successor's. delete reads \<^verbatim>\<open>node.data\<close> after the host's call: on the
  tree grown from 2, 1, 3 the search for 2 locates the root, which holds 2, and
  delete(2) returns 3.
\<close>

theorem delete_returns_successor_payload:
  "do {
     st \<leftarrow> inserts spec_imported 0 [2, 1, 3] new_tree;
     nd \<leftarrow> BinarySearch (root_ptr (trees st 0)) (VNum 2) (search (trees st 0)) st;
     (v, st1) \<leftarrow> AVLTree_delete spec_imported 0 (VNum 2) None st;
     Some (map_option (\<lambda>a. data (nodes st a)) nd, v)
   } = Some (Some (VNum 2), VNum 3)"
  by code_simp

subsection \<open>delete against deleteNode\<close>

text \<open>
  Claim C6 says that removing a node by delete and removing it by deleteNode leave the
  same tree. On the tree grown from 2, 1, 3, with the root 2 as the node: after delete
  the tree holds 3 with the left child 1; deleteNode clears the links of the located
  node, which is still the root and now holds 3, and the tree holds 3 alone.
\<close>

theorem deleteNode_drops_subtree:
  "do {
     st \<leftarrow> inserts spec_imported 0 [2, 1, 3] new_tree;
     (_, st1) \<leftarrow> AVLTree_delete spec_imported 0 (VNum 2) None st;
     (_, st2) \<leftarrow> AVLTree_deleteNode spec_imported 0 (\<lambda>n. default_search n (VNum 2)) st;
     Some (snapshot 0 st1, snapshot 0 st2)
   } = Some (Br (Br Tip (VNum 1) 0 Tip) (VNum 3) (- 1) Tip, Br Tip (VNum 3) 0 Tip)"
  by code_simp

subsection \<open>copy\<close>

text \<open>The copy of a balanced tree: the same shape on new nodes (the root of the copy is
  at address 3), and the source keeps its root.\<close>

lemma copy_of_balanced_tree:
  "do {
     st \<leftarrow> inserts spec_imported 0 [2, 1, 3] new_tree;
     (c, st1) \<leftarrow> AVLTree_copy spec_imported 0 st;
     Some (snapshot c st1 = snapshot 0 st, root_ptr (trees st1 c), root_ptr (trees st1 0))
   } = Some (True, Some 3, Some 0)"
  by code_simp

text \<open>
  Claim C2 says that copy returns a new tree with the payloads of the source and leaves
  the source as it was. copy hands \<^verbatim>\<open>this\<close>, not the new tree, to the propagation, so
  a rotation at the root of the copy writes the root field of the source. The tree
  grown from 8, 4, 12, 2, 6, 10, 14, 5, 15 is balanced. deleteNode on its node 4, which
  has two children, leaves that node in the tree with the payload 5 and no children
  (the defect of claim C6; no rotation takes place, whatever the rule of the
  post-deletion walk): the tree is 8 over the leaf 5 on the left and a subtree of height
  2 on the right. Re-inserting its six payloads breadth-first rotates the copy at its
  root when 15 arrives: the new subtree root (address 11) is written to the root field
  of the source, whose root was at address 0, and the copy keeps its old root (address
  9) and holds 5, 8 and 10 only.
\<close>

theorem copy_writes_source_root:
  "do {
     st \<leftarrow> inserts spec_imported 0 [8, 4, 12, 2, 6, 10, 14, 5, 15] new_tree;
     (_, st1) \<leftarrow> AVLTree_deleteNode spec_imported 0 (\<lambda>n. default_search n (VNum 4)) st;
     (c, st2) \<leftarrow> AVLTree_copy spec_imported 0 st1;
     Some (balanced (snapshot 0 st), payloads (snapshot 0 st1), payloads (snapshot c st2),
           root_ptr (trees st1 0), root_ptr (trees st2 0), root_ptr (trees st2 c), next_node st1)
   } = Some (True, [VNum 5, VNum 8, VNum 10, VNum 12, VNum 14, VNum 15],
             [VNum 5, VNum 8, VNum 10], Some 0, Some 11, Some 9, 9)"
  by code_simp

end
